theory Spec2Isabelle
  imports Main
begin

section \<open>Strings\<close>

text \<open>
  A JavaScript string is a sequence of UTF-16 code units. The model uses \<^typ>\<open>string\<close>:
  one \<^typ>\<open>char\<close> is one code unit in the range U+0000 .. U+00FF, so \<open>length\<close> is
  the \<^verbatim>\<open>.length\<close> of the source. Strings with code units above U+00FF are outside the model.
\<close>

definition isWhiteSpace :: "char \<Rightarrow> bool" where
  \<comment> \<open>The code units below U+0100 that \<^verbatim>\<open>\s\<close> matches and \<^verbatim>\<open>trim()\<close> strips:
      TAB, LF, VT, FF, CR, SPACE and NO-BREAK SPACE.\<close>
  "isWhiteSpace c = (c \<in> set [CHR 0x09, CHR 0x0A, CHR 0x0B, CHR 0x0C, CHR 0x0D, CHR 0x20, CHR 0xA0])"

definition trim :: "string \<Rightarrow> string" where
  "trim s = rev (dropWhile isWhiteSpace (rev (dropWhile isWhiteSpace s)))"

definition toLowerCase_char :: "char \<Rightarrow> char" where
  \<comment> \<open>A..Z and the Latin-1 capitals U+00C0 .. U+00DE (without the multiplication sign U+00D7)
      move up by 32; every other code unit below U+0100 is its own lower case.\<close>
  "toLowerCase_char c =
     (let n = (of_char c :: nat)
      in if (65 \<le> n \<and> n \<le> 90) \<or> (192 \<le> n \<and> n \<le> 222 \<and> n \<noteq> 215)
         then char_of (n + 32) else c)"

definition toLowerCase :: "string \<Rightarrow> string" where
  "toLowerCase s = map toLowerCase_char s"

section \<open>The regular expression of the e-mail check\<close>

text \<open>
  The source tests e-mail addresses with the literal
  \<^verbatim>\<open>/^[^\s@]+@[^\s@]+\.[^\s@]+$/\<close> (no flags). The fragment of the regular expression
  syntax it uses is embedded as data: a pattern anchored at both ends is a list of pieces,
  a piece is an atom taken once or an atom under \<^verbatim>\<open>+\<close>, and an atom is a literal
  character or a negated character class.
\<close>

datatype class_item = ClassWhiteSpace | ClassChar char

datatype atom = Literal char | NotOneOf "class_item list"

datatype piece = Once atom | OneOrMore atom

fun class_item_matches :: "class_item \<Rightarrow> char \<Rightarrow> bool" where
  "class_item_matches ClassWhiteSpace c = isWhiteSpace c"
| "class_item_matches (ClassChar d) c = (c = d)"

fun atom_matches :: "atom \<Rightarrow> char \<Rightarrow> bool" where
  "atom_matches (Literal d) c = (c = d)"
| "atom_matches (NotOneOf items) c = (\<not> list_ex (\<lambda>i. class_item_matches i c) items)"

text \<open>
  \<open>regex_match ps s\<close>: the pieces \<open>ps\<close> consume exactly the whole of \<open>s\<close>
  (the pattern starts with \<^verbatim>\<open>^\<close> and ends with \<^verbatim>\<open>$\<close>). A piece under \<^verbatim>\<open>+\<close> takes one
  character and then either goes on taking or hands over to the rest of the pattern, which
  covers every way the backtracking matcher can split the input.
\<close>

fun regex_match :: "piece list \<Rightarrow> string \<Rightarrow> bool" where
  "regex_match [] s = (s = [])"
| "regex_match (Once a # ps) [] = False"
| "regex_match (Once a # ps) (c # s) = (atom_matches a c \<and> regex_match ps s)"
| "regex_match (OneOrMore a # ps) [] = False"
| "regex_match (OneOrMore a # ps) (c # s) =
     (atom_matches a c \<and> (regex_match (OneOrMore a # ps) s \<or> regex_match ps s))"

definition notSpaceAt :: atom where
  \<comment> \<open>\<^verbatim>\<open>[^\s@]\<close>\<close>
  "notSpaceAt = NotOneOf [ClassWhiteSpace, ClassChar CHR ''@'']"

definition emailRegex :: "piece list" where
  "emailRegex =
     [OneOrMore notSpaceAt, Once (Literal CHR ''@''), OneOrMore notSpaceAt,
      Once (Literal CHR ''.''), OneOrMore notSpaceAt]"

definition test :: "piece list \<Rightarrow> string \<Rightarrow> bool" where
  "test re s = regex_match re s"

section \<open>Field validation of the sign-up form\<close>

datatype field = Name | Email | Password | ConfirmPassword | OtherField

text \<open>
  \<open>validateField\<close> of the sign-up screen. It reads \<^verbatim>\<open>formState.password\<close> from the
  enclosing component; the model takes that value as its first argument. \<open>None\<close> is
  \<^verbatim>\<open>undefined\<close>: the field is valid.
\<close>

fun validateField :: "string \<Rightarrow> field \<Rightarrow> string \<Rightarrow> string option" where
  "validateField formState_password Name v =
     (if trim v = [] then Some ''Name is required''
      else if length (trim v) < 2 then Some ''Name must be at least 2 characters''
      else None)"
| "validateField formState_password Email v =
     (if trim v = [] then Some ''Email is required''
      else if \<not> test emailRegex v then Some ''Email address is incomplete''
      else None)"
| "validateField formState_password Password v =
     (if v = [] then Some ''Password is required''
      else if length v < 6 then Some ''Password must be at least 6 characters''
      else None)"
| "validateField formState_password ConfirmPassword v =
     (if v = [] then Some ''Please confirm your password''
      else if v \<noteq> formState_password then Some ''Passwords do not match''
      else None)"
| "validateField formState_password OtherField v = None"

section \<open>Accounts, session users and results\<close>

text \<open>
  \<^verbatim>\<open>User\<close> is the session user \<^verbatim>\<open>{name, email, id}\<close>; \<^verbatim>\<open>StoredUser\<close> is the account, the
  same three fields and \<^verbatim>\<open>password\<close>, written as an extension of \<open>User\<close> so that both
  share their field names. The field \<^verbatim>\<open>id\<close> is \<open>uid\<close> here.
\<close>

record User =
  name :: string
  email :: string
  uid :: string

record StoredUser = User +
  password :: string

record AuthResult =
  success :: bool
  error :: "string option"

section \<open>The persistence collaborator and the provider's state\<close>

datatype key = AUTH_STORAGE_KEY | USERS_STORAGE_KEY

datatype storage_call = GetItem key | SetItem key | RemoveItem key

text \<open>
  The text stored under a key is the empty string, a text that \<^verbatim>\<open>JSON.parse\<close> rejects, or
  the \<^verbatim>\<open>JSON.stringify\<close> of a value of the shape the key is declared to hold (\<open>Json v\<close>,
  which parses back to \<open>v\<close>). A key without a value is \<open>None\<close>, the \<^verbatim>\<open>null\<close> of
  \<^verbatim>\<open>getItem\<close>. A text that parses to a value of another shape is outside the model.
\<close>

datatype 'a stored = EmptyText | Unparseable | Json 'a

datatype exn = StorageFault | SyntaxError

datatype event = Storage storage_call | SetUser "User option" | SetIsLoading bool

text \<open>
  The world of the provider: its two pieces of React state, the two keys of AsyncStorage,
  and a log of the storage calls and state setters executed so far (the log is not in the
  source; it records the order and number of effects).
\<close>

record world =
  user :: "User option"
  isLoading :: bool
  auth_user :: "User stored option"
  auth_users :: "StoredUser list stored option"
  trace :: "event list"

text \<open>
  What a call cannot decide itself: which AsyncStorage calls reject during it, and the
  value of \<^verbatim>\<open>Date.now()\<close>.
\<close>

record env =
  rejects :: "storage_call \<Rightarrow> bool"
  now :: nat

text \<open>
  An asynchronous function is a state transformer that either resolves with a value
  (\<open>Inr\<close>) or rejects with an exception (\<open>Inl\<close>); the effects made before a rejection stay.
  \<open>await m f\<close> runs \<open>m\<close> and, unless it rejects, goes on with \<open>f\<close>; it also puts the
  synchronous statements of a body in sequence.
\<close>

type_synonym 'a promise = "world \<Rightarrow> (exn + 'a) \<times> world"

definition resolve :: "'a \<Rightarrow> 'a promise" where
  "resolve x w = (Inr x, w)"

definition reject :: "exn \<Rightarrow> 'a promise" where
  "reject e w = (Inl e, w)"

definition await :: "'a promise \<Rightarrow> ('a \<Rightarrow> 'b promise) \<Rightarrow> 'b promise" where
  "await m f w = (case m w of (Inl e, w') \<Rightarrow> (Inl e, w') | (Inr x, w') \<Rightarrow> f x w')"

definition try_catch :: "'a promise \<Rightarrow> (exn \<Rightarrow> 'a promise) \<Rightarrow> 'a promise" where
  "try_catch m h w = (case m w of (Inl e, w') \<Rightarrow> h e w' | (Inr x, w') \<Rightarrow> (Inr x, w'))"

definition try_finally :: "'a promise \<Rightarrow> unit promise \<Rightarrow> 'a promise" where
  "try_finally m fin w =
     (case m w of (r, w') \<Rightarrow>
        (case fin w' of (Inl e, w'') \<Rightarrow> (Inl e, w'') | (Inr u, w'') \<Rightarrow> (r, w'')))"

definition logged :: "event \<Rightarrow> world \<Rightarrow> world" where
  "logged ev w = w\<lparr>trace := trace w @ [ev]\<rparr>"

definition setUser :: "User option \<Rightarrow> unit promise" where
  "setUser u w = (Inr (), logged (SetUser u) (w\<lparr>user := u\<rparr>))"

definition setIsLoading :: "bool \<Rightarrow> unit promise" where
  "setIsLoading b w = (Inr (), logged (SetIsLoading b) (w\<lparr>isLoading := b\<rparr>))"

definition console_error :: "unit promise" where
  "console_error = resolve ()"

definition getItem_AUTH :: "env \<Rightarrow> User stored option promise" where
  "getItem_AUTH e w =
     (let w' = logged (Storage (GetItem AUTH_STORAGE_KEY)) w
      in if rejects e (GetItem AUTH_STORAGE_KEY) then (Inl StorageFault, w')
         else (Inr (auth_user w'), w'))"

definition getItem_USERS :: "env \<Rightarrow> StoredUser list stored option promise" where
  "getItem_USERS e w =
     (let w' = logged (Storage (GetItem USERS_STORAGE_KEY)) w
      in if rejects e (GetItem USERS_STORAGE_KEY) then (Inl StorageFault, w')
         else (Inr (auth_users w'), w'))"

text \<open>\<open>setItem_AUTH e u\<close> is \<^verbatim>\<open>AsyncStorage.setItem(AUTH_STORAGE_KEY, JSON.stringify(u))\<close>;
  a write that rejects leaves the key as it was.\<close>

definition setItem_AUTH :: "env \<Rightarrow> User \<Rightarrow> unit promise" where
  "setItem_AUTH e u w =
     (let w' = logged (Storage (SetItem AUTH_STORAGE_KEY)) w
      in if rejects e (SetItem AUTH_STORAGE_KEY) then (Inl StorageFault, w')
         else (Inr (), w'\<lparr>auth_user := Some (Json u)\<rparr>))"

definition setItem_USERS :: "env \<Rightarrow> StoredUser list \<Rightarrow> unit promise" where
  "setItem_USERS e users w =
     (let w' = logged (Storage (SetItem USERS_STORAGE_KEY)) w
      in if rejects e (SetItem USERS_STORAGE_KEY) then (Inl StorageFault, w')
         else (Inr (), w'\<lparr>auth_users := Some (Json users)\<rparr>))"

definition removeItem_AUTH :: "env \<Rightarrow> unit promise" where
  "removeItem_AUTH e w =
     (let w' = logged (Storage (RemoveItem AUTH_STORAGE_KEY)) w
      in if rejects e (RemoveItem AUTH_STORAGE_KEY) then (Inl StorageFault, w')
         else (Inr (), w'\<lparr>auth_user := None\<rparr>))"

fun JSON_parse :: "'a stored \<Rightarrow> 'a promise" where
  "JSON_parse (Json v) = resolve v"
| "JSON_parse Unparseable = reject SyntaxError"
| "JSON_parse EmptyText = reject SyntaxError"

section \<open>The provider's operations\<close>

text \<open>
  \<^verbatim>\<open>if (storedUser)\<close> and \<^verbatim>\<open>users ? ... : ...\<close> test a \<^verbatim>\<open>string | null\<close>: \<^verbatim>\<open>null\<close> and the
  empty string are falsy, every other text is parsed.
\<close>

definition loadUser :: "env \<Rightarrow> unit promise" where
  "loadUser e =
     try_finally
       (try_catch
          (await (getItem_AUTH e) (\<lambda>storedUser.
             case storedUser of
               None \<Rightarrow> resolve ()
             | Some EmptyText \<Rightarrow> resolve ()
             | Some t \<Rightarrow> await (JSON_parse t) (\<lambda>u. setUser (Some u))))
          (\<lambda>error. console_error))
       (setIsLoading False)"

definition getStoredUsers :: "env \<Rightarrow> StoredUser list promise" where
  "getStoredUsers e =
     try_catch
       (await (getItem_USERS e) (\<lambda>users.
          case users of
            None \<Rightarrow> resolve []
          | Some EmptyText \<Rightarrow> resolve []
          | Some t \<Rightarrow> JSON_parse t))
       (\<lambda>error. await console_error (\<lambda>_. resolve []))"

definition saveStoredUsers :: "env \<Rightarrow> StoredUser list \<Rightarrow> unit promise" where
  "saveStoredUsers e users = try_catch (setItem_USERS e users) (\<lambda>error. console_error)"

definition failure :: "string \<Rightarrow> AuthResult" where
  \<comment> \<open>\<^verbatim>\<open>{ success: false, error: msg }\<close>\<close>
  "failure msg = \<lparr>success = False, error = Some msg\<rparr>"

definition succeeded :: AuthResult where
  \<comment> \<open>\<^verbatim>\<open>{ success: true }\<close>\<close>
  "succeeded = \<lparr>success = True, error = None\<rparr>"

definition login :: "env \<Rightarrow> string \<Rightarrow> string \<Rightarrow> AuthResult promise" where
  "login e email_in password_in =
     try_catch
       (if email_in = [] \<or> password_in = []
        then resolve (failure ''Email and password are required'')
        else await (getStoredUsers e) (\<lambda>users.
          case find (\<lambda>u. toLowerCase (email u) = toLowerCase email_in
                          \<and> password u = password_in) users of
            None \<Rightarrow> resolve (failure ''Invalid email or password'')
          | Some foundUser \<Rightarrow>
              (let loggedInUser =
                     \<lparr>name = name foundUser, email = email foundUser, uid = uid foundUser\<rparr>
               in await (setUser (Some loggedInUser)) (\<lambda>_.
                  await (setItem_AUTH e loggedInUser) (\<lambda>_.
                  resolve succeeded)))))
       (\<lambda>error. await console_error (\<lambda>_.
          resolve (failure ''An unexpected error occurred during login'')))"

text \<open>\<open>toString n\<close> is \<^verbatim>\<open>n.toString()\<close> of a non-negative integer: its decimal digits
  (\<^verbatim>\<open>Date.now()\<close> is in the range where JavaScript prints all of them).\<close>

fun toString :: "nat \<Rightarrow> string" where
  "toString n =
     (if n < 10 then [''0123456789'' ! n]
      else toString (n div 10) @ [''0123456789'' ! (n mod 10)])"

definition signup :: "env \<Rightarrow> string \<Rightarrow> string \<Rightarrow> string \<Rightarrow> AuthResult promise" where
  "signup e name_in email_in password_in =
     try_catch
       (if name_in = [] \<or> email_in = [] \<or> password_in = []
        then resolve (failure ''Name, email, and password are required'')
        else if \<not> test emailRegex email_in
        then resolve (failure ''Invalid email format'')
        else if length password_in < 6
        then resolve (failure ''Password must be at least 6 characters'')
        else await (getStoredUsers e) (\<lambda>users.
          case find (\<lambda>u. toLowerCase (email u) = toLowerCase email_in) users of
            Some existingUser \<Rightarrow> resolve (failure ''User with this email already exists'')
          | None \<Rightarrow>
              (let newUser =
                     \<lparr>name = name_in, email = email_in, uid = toString (now e),
                      password = password_in\<rparr>
               in await (saveStoredUsers e (users @ [newUser])) (\<lambda>_.
                  let loggedInUser =
                        \<lparr>name = name newUser, email = email newUser, uid = uid newUser\<rparr>
                  in await (setUser (Some loggedInUser)) (\<lambda>_.
                     await (setItem_AUTH e loggedInUser) (\<lambda>_.
                     resolve succeeded))))))
       (\<lambda>error. await console_error (\<lambda>_.
          resolve (failure ''An unexpected error occurred during signup'')))"

definition logout :: "env \<Rightarrow> AuthResult promise" where
  "logout e =
     try_catch
       (await (setUser None) (\<lambda>_.
        await (removeItem_AUTH e) (\<lambda>_.
        resolve succeeded)))
       (\<lambda>error. await console_error (\<lambda>_.
          resolve (failure ''An unexpected error occurred during logout'')))"

text \<open>
  The provider starts with \<^verbatim>\<open>user = null\<close> and \<^verbatim>\<open>isLoading = true\<close>, and its mount effect
  (dependency list \<^verbatim>\<open>[]\<close>) calls \<open>loadUser\<close> once.
\<close>

definition initial :: "User stored option \<Rightarrow> StoredUser list stored option \<Rightarrow> world" where
  "initial session accounts =
     \<lparr>user = None, isLoading = True, auth_user = session, auth_users = accounts, trace = []\<rparr>"

definition mount :: "env \<Rightarrow> User stored option \<Rightarrow> StoredUser list stored option
    \<Rightarrow> (exn + unit) \<times> world" where
  "mount e session accounts = loadUser e (initial session accounts)"

section \<open>Notions of the specification\<close>

text \<open>
  The specification's description of a well-formed e-mail address, in its own words: one
  or more characters that are neither whitespace nor \<^verbatim>\<open>@\<close>, then \<^verbatim>\<open>@\<close>, then one or more
  such characters, then a dot, then one or more such characters.
\<close>

definition plainChar :: "char \<Rightarrow> bool" where
  "plainChar c = (\<not> isWhiteSpace c \<and> c \<noteq> CHR ''@'')"

definition email_shape :: "string \<Rightarrow> bool" where
  "email_shape v =
     (\<exists>local domain tld.
        v = local @ ''@'' @ domain @ ''.'' @ tld
        \<and> local \<noteq> [] \<and> domain \<noteq> [] \<and> tld \<noteq> []
        \<and> list_all plainChar local \<and> list_all plainChar domain \<and> list_all plainChar tld)"

text \<open>
  The stored accounts: the list under \<^verbatim>\<open>@auth_users\<close>, empty when the key is absent or its
  text does not parse.
\<close>

definition accounts :: "world \<Rightarrow> StoredUser list" where
  "accounts w = (case auth_users w of Some (Json users) \<Rightarrow> users | _ \<Rightarrow> [])"

definition unique_emails :: "world \<Rightarrow> bool" where
  \<comment> \<open>no two stored accounts have case-insensitively equal e-mail addresses\<close>
  "unique_emails w = distinct (map (\<lambda>u. toLowerCase (email u)) (accounts w))"

text \<open>
  The account list a call works with is the result of \<open>getStoredUsers\<close>: the stored
  accounts, or the empty list when reading the key rejects.
\<close>

definition listing :: "env \<Rightarrow> world \<Rightarrow> StoredUser list" where
  "listing e w = (if rejects e (GetItem USERS_STORAGE_KEY) then [] else accounts w)"

definition credentials_match :: "string \<Rightarrow> string \<Rightarrow> StoredUser \<Rightarrow> bool" where
  \<comment> \<open>case-insensitively equal e-mail address and exactly equal password\<close>
  "credentials_match email_in password_in u =
     (toLowerCase (email u) = toLowerCase email_in \<and> password u = password_in)"

definition same_email :: "string \<Rightarrow> StoredUser \<Rightarrow> bool" where
  "same_email email_in u = (toLowerCase (email u) = toLowerCase email_in)"

definition session_of :: "StoredUser \<Rightarrow> User" where
  \<comment> \<open>the account without its password\<close>
  "session_of u = \<lparr>name = name u, email = email u, uid = uid u\<rparr>"

text \<open>A sequence of sign-up calls, one after the other, each in its own environment.\<close>

fun signups :: "(env \<times> string \<times> string \<times> string) list \<Rightarrow> world \<Rightarrow> world" where
  "signups [] w = w"
| "signups ((e, name_in, email_in, password_in) # calls) w =
     signups calls (snd (signup e name_in email_in password_in w))"

definition reliable :: "env \<Rightarrow> bool" where
  \<comment> \<open>no AsyncStorage call rejects\<close>
  "reliable e =
     (\<not> list_ex (rejects e)
          [GetItem AUTH_STORAGE_KEY, GetItem USERS_STORAGE_KEY, SetItem AUTH_STORAGE_KEY,
           SetItem USERS_STORAGE_KEY, RemoveItem AUTH_STORAGE_KEY])"

section \<open>Concrete environments and worlds\<close>

text \<open>
  \<open>nominal t\<close>: no storage call rejects and the clock shows \<open>t\<close>. \<open>failing call t\<close>: exactly
  the storage call \<open>call\<close> rejects.
\<close>

definition nominal :: "nat \<Rightarrow> env" where
  "nominal t = \<lparr>rejects = (\<lambda>c. False), now = t\<rparr>"

definition failing :: "storage_call \<Rightarrow> nat \<Rightarrow> env" where
  "failing call t = \<lparr>rejects = (\<lambda>c. c = call), now = t\<rparr>"

definition fresh :: world where
  \<comment> \<open>a provider before its first operation, on an empty store\<close>
  "fresh = initial None None"

definition john :: StoredUser where
  "john = \<lparr>name = ''John Doe'', email = ''john@example.com'', uid = ''1700000000000'',
           password = ''password123''\<rparr>"

definition john_signed_in :: world where
  "john_signed_in =
     \<lparr>user = Some (session_of john), isLoading = False,
      auth_user = Some (Json (session_of john)), auth_users = Some (Json [john]), trace = []\<rparr>"

definition john_signed_out :: world where
  "john_signed_out =
     \<lparr>user = None, isLoading = False, auth_user = None, auth_users = Some (Json [john]),
      trace = []\<rparr>"

section \<open>The e-mail pattern\<close>

lemma regex_match_Once:
  "regex_match (Once a # ps) s = (\<exists>c t. s = c # t \<and> atom_matches a c \<and> regex_match ps t)"
  by (cases s) auto

lemma regex_match_OneOrMore:
  "regex_match (OneOrMore a # ps) s =
     (\<exists>p t. s = p @ t \<and> p \<noteq> [] \<and> list_all (atom_matches a) p \<and> regex_match ps t)"
proof (induction s)
  case Nil
  show ?case by simp
next
  case (Cons c s)
  show ?case
  proof
    assume "regex_match (OneOrMore a # ps) (c # s)"
    then have c: "atom_matches a c"
      and rest: "regex_match (OneOrMore a # ps) s \<or> regex_match ps s" by auto
    from rest show "\<exists>p t. c # s = p @ t \<and> p \<noteq> [] \<and> list_all (atom_matches a) p \<and> regex_match ps t"
    proof
      assume "regex_match (OneOrMore a # ps) s"
      with Cons.IH obtain p t where "s = p @ t" "list_all (atom_matches a) p" "regex_match ps t"
        by auto
      with c have "c # s = (c # p) @ t \<and> c # p \<noteq> [] \<and> list_all (atom_matches a) (c # p) \<and> regex_match ps t"
        by simp
      then show ?thesis by blast
    next
      assume "regex_match ps s"
      with c have "c # s = [c] @ s \<and> [c] \<noteq> [] \<and> list_all (atom_matches a) [c] \<and> regex_match ps s"
        by simp
      then show ?thesis by blast
    qed
  next
    assume "\<exists>p t. c # s = p @ t \<and> p \<noteq> [] \<and> list_all (atom_matches a) p \<and> regex_match ps t"
    then obtain p t where eq: "c # s = p @ t" and ne: "p \<noteq> []"
      and all: "list_all (atom_matches a) p" and m: "regex_match ps t" by blast
    from ne obtain d q where p: "p = d # q" by (cases p) auto
    with eq all have dc: "d = c" and s: "s = q @ t" and c: "atom_matches a c"
      and q: "list_all (atom_matches a) q" by auto
    show "regex_match (OneOrMore a # ps) (c # s)"
    proof (cases q)
      case Nil
      with s m c show ?thesis by simp
    next
      case (Cons x xs)
      with s q m have "\<exists>p t. s = p @ t \<and> p \<noteq> [] \<and> list_all (atom_matches a) p \<and> regex_match ps t"
        by blast
      with Cons.IH c show ?thesis by simp
    qed
  qed
qed



lemma atom_matches_notSpaceAt: "atom_matches notSpaceAt = plainChar"
  by (rule ext) (simp add: notSpaceAt_def plainChar_def)

lemma regex_match_last: "regex_match [OneOrMore a] s = (s \<noteq> [] \<and> list_all (atom_matches a) s)"
  by (auto simp: regex_match_OneOrMore)

lemma regex_match_literal:
  "regex_match (Once (Literal d) # ps) s = (\<exists>t. s = d # t \<and> regex_match ps t)"
  by (auto simp: regex_match_Once)

lemma regex_match_OneOrMoreI:
  "p \<noteq> [] \<Longrightarrow> list_all (atom_matches a) p \<Longrightarrow> regex_match ps t
     \<Longrightarrow> regex_match (OneOrMore a # ps) (p @ t)"
  unfolding regex_match_OneOrMore by blast

lemma test_emailRegex: "test emailRegex v = email_shape v"
proof
  assume "test emailRegex v"
  then obtain l t1 where v: "v = l @ t1" and l: "l \<noteq> []" "list_all plainChar l"
    and m1: "regex_match [Once (Literal CHR ''@''), OneOrMore notSpaceAt,
               Once (Literal CHR ''.''), OneOrMore notSpaceAt] t1"
    unfolding test_def emailRegex_def regex_match_OneOrMore [of notSpaceAt]
    by (auto simp: atom_matches_notSpaceAt)
  from m1 obtain t2 where t1: "t1 = CHR ''@'' # t2"
    and m2: "regex_match [OneOrMore notSpaceAt, Once (Literal CHR ''.''), OneOrMore notSpaceAt] t2"
    unfolding regex_match_literal by blast
  from m2 obtain d t3 where t2: "t2 = d @ t3" and d: "d \<noteq> []" "list_all plainChar d"
    and m3: "regex_match [Once (Literal CHR ''.''), OneOrMore notSpaceAt] t3"
    unfolding regex_match_OneOrMore [of notSpaceAt "[Once (Literal CHR ''.''), OneOrMore notSpaceAt]"]
    by (auto simp: atom_matches_notSpaceAt)
  from m3 obtain t4 where t3: "t3 = CHR ''.'' # t4" and m4: "regex_match [OneOrMore notSpaceAt] t4"
    unfolding regex_match_literal by blast
  from m4 have t4: "t4 \<noteq> []" "list_all plainChar t4"
    by (auto simp: regex_match_last atom_matches_notSpaceAt)
  have "v = l @ ''@'' @ d @ ''.'' @ t4"
    by (simp add: v t1 t2 t3)
  with l d t4 show "email_shape v"
    unfolding email_shape_def by blast
next
  assume "email_shape v"
  then obtain l d t where v: "v = l @ ''@'' @ d @ ''.'' @ t"
    and l: "l \<noteq> []" "list_all plainChar l"
    and d: "d \<noteq> []" "list_all plainChar d"
    and t: "t \<noteq> []" "list_all plainChar t"
    unfolding email_shape_def by blast
  from t have m4: "regex_match [OneOrMore notSpaceAt] t"
    by (simp add: regex_match_last atom_matches_notSpaceAt)
  then have m3: "regex_match [Once (Literal CHR ''.''), OneOrMore notSpaceAt] (CHR ''.'' # t)"
    by simp
  have m2: "regex_match [OneOrMore notSpaceAt, Once (Literal CHR ''.''), OneOrMore notSpaceAt]
              (d @ CHR ''.'' # t)"
    using d m3 by (intro regex_match_OneOrMoreI) (simp_all add: atom_matches_notSpaceAt)
  then have m1: "regex_match [Once (Literal CHR ''@''), OneOrMore notSpaceAt,
               Once (Literal CHR ''.''), OneOrMore notSpaceAt] (CHR ''@'' # d @ CHR ''.'' # t)"
    by simp
  have "regex_match emailRegex (l @ CHR ''@'' # d @ CHR ''.'' # t)"
    unfolding emailRegex_def
    using l m1 by (intro regex_match_OneOrMoreI) (simp_all add: atom_matches_notSpaceAt)
  then show "test emailRegex v"
    by (simp add: test_def v)
qed

text \<open>
  C6. For every string \<open>v\<close>, the e-mail rule answers "Email is required" exactly when \<open>v\<close>
  trimmed is empty; otherwise "Email address is incomplete" exactly when \<open>v\<close> is not of the
  shape: one or more characters that are neither whitespace nor \<^verbatim>\<open>@\<close>, \<^verbatim>\<open>@\<close>, one or more
  such characters, a dot, one or more such characters; otherwise no error.
\<close>

theorem validateField_email:
  "((validateField fp Email v = Some ''Email is required'') = (trim v = []))
   \<and> ((validateField fp Email v = Some ''Email address is incomplete'')
        = (trim v \<noteq> [] \<and> \<not> email_shape v))
   \<and> ((validateField fp Email v = None) = (trim v \<noteq> [] \<and> email_shape v))"
  by (simp add: test_emailRegex)

text \<open>
  C7. For every string \<open>v\<close>, the password rule answers "Password is required" exactly when
  \<open>v\<close> is empty, "Password must be at least 6 characters" exactly when \<open>v\<close> is not empty
  and shorter than 6, and no error exactly when \<open>v\<close> has at least 6 characters; "12345" is
  rejected and "123456" is accepted.
\<close>

theorem validateField_password:
  "((validateField fp Password v = Some ''Password is required'') = (v = []))
   \<and> ((validateField fp Password v = Some ''Password must be at least 6 characters'')
        = (v \<noteq> [] \<and> length v < 6))
   \<and> ((validateField fp Password v = None) = (6 \<le> length v))
   \<and> validateField fp Password ''12345'' = Some ''Password must be at least 6 characters''
   \<and> validateField fp Password ''123456'' = None"
  by auto

section \<open>The operations in closed form\<close>

text \<open>
  Unfolding the promise combinators gives each operation as one case distinction on its
  inputs, the environment and the world. The claims below are read off these equations.
\<close>

lemmas promise_defs = resolve_def reject_def await_def try_catch_def try_finally_def
  logged_def setUser_def setIsLoading_def console_error_def

lemma getStoredUsers_eq:
  "getStoredUsers e w =
     (Inr (if rejects e (GetItem USERS_STORAGE_KEY) then [] else accounts w),
      logged (Storage (GetItem USERS_STORAGE_KEY)) w)"
  by (simp add: getStoredUsers_def getItem_USERS_def accounts_def promise_defs
      split: option.splits stored.splits)

lemma saveStoredUsers_eq:
  "saveStoredUsers e users w =
     (Inr (),
      if rejects e (SetItem USERS_STORAGE_KEY) then logged (Storage (SetItem USERS_STORAGE_KEY)) w
      else (logged (Storage (SetItem USERS_STORAGE_KEY)) w)\<lparr>auth_users := Some (Json users)\<rparr>)"
  by (simp add: saveStoredUsers_def setItem_USERS_def promise_defs)

lemma loadUser_eq:
  "loadUser e w =
     (Inr (),
      (case (if rejects e (GetItem AUTH_STORAGE_KEY) then None else auth_user w) of
         Some (Json u) \<Rightarrow>
           w\<lparr>user := Some u, isLoading := False,
             trace := trace w @ [Storage (GetItem AUTH_STORAGE_KEY), SetUser (Some u),
                                 SetIsLoading False]\<rparr>
       | _ \<Rightarrow>
           w\<lparr>isLoading := False,
             trace := trace w @ [Storage (GetItem AUTH_STORAGE_KEY), SetIsLoading False]\<rparr>))"
  by (simp add: loadUser_def getItem_AUTH_def promise_defs
      split: option.splits stored.splits)

lemma logout_eq:
  "logout e w =
     (if rejects e (RemoveItem AUTH_STORAGE_KEY)
      then (Inr (failure ''An unexpected error occurred during logout''),
            w\<lparr>user := None,
              trace := trace w @ [SetUser None, Storage (RemoveItem AUTH_STORAGE_KEY)]\<rparr>)
      else (Inr succeeded,
            w\<lparr>user := None, auth_user := None,
              trace := trace w @ [SetUser None, Storage (RemoveItem AUTH_STORAGE_KEY)]\<rparr>))"
  by (simp add: logout_def removeItem_AUTH_def promise_defs)

lemma login_eq:
  "login e email_in password_in w =
     (if email_in = [] \<or> password_in = []
      then (Inr (failure ''Email and password are required''), w)
      else case find (credentials_match email_in password_in) (listing e w) of
        None \<Rightarrow> (Inr (failure ''Invalid email or password''),
                  w\<lparr>trace := trace w @ [Storage (GetItem USERS_STORAGE_KEY)]\<rparr>)
      | Some foundUser \<Rightarrow>
          if rejects e (SetItem AUTH_STORAGE_KEY)
          then (Inr (failure ''An unexpected error occurred during login''),
                w\<lparr>user := Some (session_of foundUser),
                  trace := trace w @ [Storage (GetItem USERS_STORAGE_KEY),
                    SetUser (Some (session_of foundUser)), Storage (SetItem AUTH_STORAGE_KEY)]\<rparr>)
          else (Inr succeeded,
                w\<lparr>user := Some (session_of foundUser),
                  auth_user := Some (Json (session_of foundUser)),
                  trace := trace w @ [Storage (GetItem USERS_STORAGE_KEY),
                    SetUser (Some (session_of foundUser)), Storage (SetItem AUTH_STORAGE_KEY)]\<rparr>))"
  unfolding credentials_match_def [abs_def] listing_def session_of_def
  by (simp add: login_def getStoredUsers_eq setItem_AUTH_def promise_defs Let_def
      split: option.splits)

lemma signup_eq:
  "signup e name_in email_in password_in w =
     (if name_in = [] \<or> email_in = [] \<or> password_in = []
      then (Inr (failure ''Name, email, and password are required''), w)
      else if \<not> test emailRegex email_in
      then (Inr (failure ''Invalid email format''), w)
      else if length password_in < 6
      then (Inr (failure ''Password must be at least 6 characters''), w)
      else case find (same_email email_in) (listing e w) of
        Some existingUser \<Rightarrow>
          (Inr (failure ''User with this email already exists''),
           w\<lparr>trace := trace w @ [Storage (GetItem USERS_STORAGE_KEY)]\<rparr>)
      | None \<Rightarrow>
          (let newUser = \<lparr>name = name_in, email = email_in, uid = toString (now e),
                          password = password_in\<rparr>;
               tr = trace w @ [Storage (GetItem USERS_STORAGE_KEY),
                      Storage (SetItem USERS_STORAGE_KEY), SetUser (Some (session_of newUser)),
                      Storage (SetItem AUTH_STORAGE_KEY)];
               w1 = (if rejects e (SetItem USERS_STORAGE_KEY) then w
                     else w\<lparr>auth_users := Some (Json (listing e w @ [newUser]))\<rparr>)
           in if rejects e (SetItem AUTH_STORAGE_KEY)
              then (Inr (failure ''An unexpected error occurred during signup''),
                    w1\<lparr>user := Some (session_of newUser), trace := tr\<rparr>)
              else (Inr succeeded,
                    w1\<lparr>user := Some (session_of newUser),
                       auth_user := Some (Json (session_of newUser)), trace := tr\<rparr>)))"
  unfolding same_email_def [abs_def] listing_def session_of_def
  by (simp add: signup_def getStoredUsers_eq saveStoredUsers_eq setItem_AUTH_def promise_defs
      Let_def del: toString.simps split: option.splits)

text \<open>Evaluation of the concrete inputs used below.\<close>

lemmas input_defs = nominal_def failing_def fresh_def initial_def john_def john_signed_in_def
  john_signed_out_def

lemma toLowerCase_john: "toLowerCase ''john@example.com'' = ''john@example.com''"
  by code_simp

lemma toLowerCase_ab: "toLowerCase ''a@b.com'' = ''a@b.com''"
  by code_simp

lemma toLowerCase_AB: "toLowerCase ''A@B.com'' = ''a@b.com''"
  by code_simp

lemma toLowerCase_John: "toLowerCase ''John@Example.com'' = ''john@example.com''"
  by code_simp

lemma toLowerCase_xy: "toLowerCase ''x@y.com'' = ''x@y.com''"
  by code_simp

lemmas eval_defs = test_def emailRegex_def notSpaceAt_def isWhiteSpace_def toLowerCase_john
  toLowerCase_ab toLowerCase_AB accounts_def listing_def same_email_def credentials_match_def
  session_of_def failure_def succeeded_def reliable_def unique_emails_def

lemma test_emailRegex_AB: "test emailRegex ''A@B.com''"
  by (simp add: eval_defs)

lemma same_email_AB: "same_email ''A@B.com'' u = (toLowerCase (email u) = ''a@b.com'')"
  by (simp add: same_email_def toLowerCase_AB)

lemma find_SomeD: "find P xs = Some a \<Longrightarrow> P a \<and> a \<in> set xs"
  by (induction xs) (auto split: if_splits)

section \<open>Startup\<close>

text \<open>
  C5. On startup the session slot is read exactly once. If the read succeeds and the slot
  holds a persisted session user, the provider ends authenticated as that user, with no
  login call. If the slot is absent (or holds the empty text), or reading or parsing it
  faults, the provider ends unauthenticated. In every case \<open>loadUser\<close> resolves (no error
  reaches the caller), the loading flag ends \<open>False\<close> and is set to \<open>False\<close> exactly once,
  and the store is left as it was.
\<close>

theorem mount_loads_session_once:
  "(case mount e session stored_accounts of (r, w) \<Rightarrow>
      r = Inr ()
      \<and> isLoading w = False
      \<and> count_list (trace w) (Storage (GetItem AUTH_STORAGE_KEY)) = 1
      \<and> count_list (trace w) (SetIsLoading False) = 1
      \<and> (\<forall>u. \<not> rejects e (GetItem AUTH_STORAGE_KEY) \<and> session = Some (Json u)
            \<longrightarrow> user w = Some u)
      \<and> (rejects e (GetItem AUTH_STORAGE_KEY) \<or> session = None \<or> session = Some EmptyText
           \<or> session = Some Unparseable
            \<longrightarrow> user w = None)
      \<and> auth_user w = session \<and> auth_users w = stored_accounts)"
  by (auto simp: mount_def loadUser_eq initial_def split: option.splits stored.splits)

text \<open>
  The startup theorem at four concrete starts: a persisted session user, the same with a
  rejecting read, an unparseable slot, and an absent slot.
\<close>

theorem mount_loads_session_once_witness:
  "fst (mount (nominal 0) (Some (Json (session_of john))) (Some (Json [john]))) = Inr ()
   \<and> user (snd (mount (nominal 0) (Some (Json (session_of john))) (Some (Json [john]))))
       = Some \<lparr>name = ''John Doe'', email = ''john@example.com'', uid = ''1700000000000''\<rparr>
   \<and> isLoading (snd (mount (nominal 0) (Some (Json (session_of john))) (Some (Json [john]))))
       = False
   \<and> rejects (failing (GetItem AUTH_STORAGE_KEY) 0) (GetItem AUTH_STORAGE_KEY)
   \<and> user (snd (mount (failing (GetItem AUTH_STORAGE_KEY) 0) (Some (Json (session_of john)))
                  (Some (Json [john])))) = None
   \<and> user (snd (mount (nominal 0) (Some Unparseable) (Some (Json [john])))) = None
   \<and> user (snd (mount (nominal 0) None (Some (Json [john])))) = None"
  using mount_loads_session_once [where e = "nominal 0"
      and session = "Some (Json (session_of john))" and stored_accounts = "Some (Json [john])"]
    mount_loads_session_once [where e = "failing (GetItem AUTH_STORAGE_KEY) 0"
      and session = "Some (Json (session_of john))" and stored_accounts = "Some (Json [john])"]
    mount_loads_session_once [where e = "nominal 0" and session = "Some Unparseable"
      and stored_accounts = "Some (Json [john])"]
    mount_loads_session_once [where e = "nominal 0" and session = None
      and stored_accounts = "Some (Json [john])"]
  by (simp add: case_prod_beta input_defs eval_defs)

section \<open>Sign-up\<close>

text \<open>
  C1. The claim: when the write of the updated account collection faults, sign-up returns
  a failed result. The source does otherwise: \<open>saveStoredUsers\<close> catches the rejection of
  its own write, so \<open>signup\<close> goes on, signs the user in and returns \<open>success: true\<close>,
  while the account collection is still absent.
\<close>

theorem signup_swallows_users_write_fault:
  "signup (failing (SetItem USERS_STORAGE_KEY) 1700000000000)
       ''John Doe'' ''john@example.com'' ''password123'' fresh
   = (Inr \<lparr>success = True, error = None\<rparr>,
      \<lparr>user = Some \<lparr>name = ''John Doe'', email = ''john@example.com'', uid = ''1700000000000''\<rparr>,
       isLoading = True,
       auth_user = Some (Json \<lparr>name = ''John Doe'', email = ''john@example.com'',
                               uid = ''1700000000000''\<rparr>),
       auth_users = None,
       trace = [Storage (GetItem USERS_STORAGE_KEY), Storage (SetItem USERS_STORAGE_KEY),
                SetUser (Some \<lparr>name = ''John Doe'', email = ''john@example.com'',
                               uid = ''1700000000000''\<rparr>),
                Storage (SetItem AUTH_STORAGE_KEY)]\<rparr>)"
  by (simp add: signup_eq input_defs eval_defs)

lemma find_same_email_None:
  "find (same_email email_in) users = None
   \<Longrightarrow> toLowerCase email_in \<notin> set (map (\<lambda>u. toLowerCase (email u)) users)"
  by (auto simp: find_None_iff same_email_def)

lemma distinct_listing:
  "unique_emails w \<Longrightarrow> distinct (map (\<lambda>u. toLowerCase (email u)) (listing e w))"
  by (simp add: unique_emails_def listing_def)

lemma accounts_signup:
  "accounts (snd (signup e name_in email_in password_in w)) = accounts w
   \<or> (find (same_email email_in) (listing e w) = None
      \<and> (\<exists>newUser. email newUser = email_in
            \<and> accounts (snd (signup e name_in email_in password_in w))
                = listing e w @ [newUser]))"
  by (simp add: signup_eq accounts_def Let_def del: toString.simps split: option.splits)

lemma signup_unique_emails:
  assumes "unique_emails w"
  shows "unique_emails (snd (signup e name_in email_in password_in w))"
proof -
  from accounts_signup [of e name_in email_in password_in w] show ?thesis
  proof
    assume "accounts (snd (signup e name_in email_in password_in w)) = accounts w"
    with assms show ?thesis by (simp add: unique_emails_def)
  next
    assume "find (same_email email_in) (listing e w) = None
      \<and> (\<exists>newUser. email newUser = email_in
            \<and> accounts (snd (signup e name_in email_in password_in w))
                = listing e w @ [newUser])"
    then obtain newUser where none: "find (same_email email_in) (listing e w) = None"
      and em: "email newUser = email_in"
      and acc: "accounts (snd (signup e name_in email_in password_in w)) = listing e w @ [newUser]"
      by blast
    from none have "toLowerCase email_in \<notin> set (map (\<lambda>u. toLowerCase (email u)) (listing e w))"
      by (rule find_same_email_None)
    with distinct_listing [OF assms, of e] em acc show ?thesis
      by (simp add: unique_emails_def)
  qed
qed

lemma signups_preserve_unique_emails:
  "unique_emails w \<Longrightarrow> unique_emails (signups calls w)"
proof (induction calls arbitrary: w)
  case Nil
  then show ?case by simp
next
  case (Cons c calls)
  obtain e n em pw where c: "c = (e, n, em, pw)" by (cases c) auto
  from Cons.prems have "unique_emails (snd (signup e n em pw w))"
    by (rule signup_unique_emails)
  then have "unique_emails (signups calls (snd (signup e n em pw w)))"
    by (rule Cons.IH)
  with c show ?case by simp
qed

lemma signup_succeeded_stores:
  assumes "\<not> rejects e (SetItem USERS_STORAGE_KEY)"
    and "fst (signup e name_in email_in password_in w) = Inr succeeded"
  shows "accounts (snd (signup e name_in email_in password_in w))
         = listing e w @ [\<lparr>name = name_in, email = email_in, uid = toString (now e),
                            password = password_in\<rparr>]"
  using assms
  by (simp add: signup_eq accounts_def Let_def failure_def succeeded_def
      del: toString.simps split: option.splits if_splits)

lemma signup_existing:
  assumes "list_ex (same_email email_in) (listing e w)"
  shows "(\<exists>msg. fst (signup e name_in email_in password_in w) = Inr (failure msg))
    \<and> auth_users (snd (signup e name_in email_in password_in w)) = auth_users w
    \<and> (name_in \<noteq> [] \<and> test emailRegex email_in \<and> 6 \<le> length password_in
        \<longrightarrow> fst (signup e name_in email_in password_in w)
            = Inr (failure ''User with this email already exists''))"
proof -
  from assms obtain u where u: "find (same_email email_in) (listing e w) = Some u"
    by (cases "find (same_email email_in) (listing e w)") (auto simp: find_None_iff list_ex_iff)
  have "email_in \<noteq> []" if "test emailRegex email_in"
    using that by (auto simp: test_def emailRegex_def)
  moreover have "password_in \<noteq> []" if "6 \<le> length password_in"
    using that by auto
  ultimately show ?thesis
    using u by (auto simp: signup_eq)
qed

text \<open>
  C2. Starting from an empty account store, after every sequence of sign-up calls (in any
  environments, storage faults included) no two stored accounts have case-insensitively
  equal e-mail addresses. In particular, when no storage call rejects, a sign-up with
  "A@B.com" after a successful sign-up with "a@b.com" fails and stores no new account; its
  error is "User with this email already exists" whenever its name is not empty and its
  password has at least 6 characters (otherwise an input check fails first).
\<close>

theorem signups_keep_emails_unique:
  assumes "accounts w = []"
  shows "unique_emails (signups calls w)
    \<and> (reliable e1 \<and> reliable e2
        \<and> fst (signup e1 name1 ''a@b.com'' password1 w) = Inr succeeded
       \<longrightarrow> (case signup e2 name2 ''A@B.com'' password2
                    (snd (signup e1 name1 ''a@b.com'' password1 w)) of
              (r2, w2) \<Rightarrow>
                (\<exists>msg. r2 = Inr (failure msg))
                \<and> (name2 \<noteq> [] \<and> 6 \<le> length password2
                    \<longrightarrow> r2 = Inr (failure ''User with this email already exists''))
                \<and> auth_users w2 = auth_users (snd (signup e1 name1 ''a@b.com'' password1 w))
                \<and> map email (accounts w2) = [''a@b.com'']))"
proof
  from assms have "unique_emails w" by (simp add: unique_emails_def)
  then show "unique_emails (signups calls w)" by (rule signups_preserve_unique_emails)
next
  let ?w1 = "snd (signup e1 name1 ''a@b.com'' password1 w)"
  let ?second = "signup e2 name2 ''A@B.com'' password2 ?w1"
  show "reliable e1 \<and> reliable e2
        \<and> fst (signup e1 name1 ''a@b.com'' password1 w) = Inr succeeded
       \<longrightarrow> (case ?second of
              (r2, w2) \<Rightarrow>
                (\<exists>msg. r2 = Inr (failure msg))
                \<and> (name2 \<noteq> [] \<and> 6 \<le> length password2
                    \<longrightarrow> r2 = Inr (failure ''User with this email already exists''))
                \<and> auth_users w2 = auth_users ?w1
                \<and> map email (accounts w2) = [''a@b.com''])"
  proof
    assume h: "reliable e1 \<and> reliable e2
        \<and> fst (signup e1 name1 ''a@b.com'' password1 w) = Inr succeeded"
    then have e1: "\<not> rejects e1 (SetItem USERS_STORAGE_KEY)"
      and e2: "\<not> rejects e2 (GetItem USERS_STORAGE_KEY)"
      by (simp_all add: reliable_def)
    from h have ok: "fst (signup e1 name1 ''a@b.com'' password1 w) = Inr succeeded" by simp
    from assms have "listing e1 w = []" by (simp add: listing_def)
    with signup_succeeded_stores [OF e1 ok]
    have acc: "accounts ?w1 = [\<lparr>name = name1, email = ''a@b.com'', uid = toString (now e1),
                                 password = password1\<rparr>]"
      by simp
    with e2 have "list_ex (same_email ''A@B.com'') (listing e2 ?w1)"
      by (simp add: listing_def same_email_AB toLowerCase_ab del: toString.simps)
    from signup_existing [OF this, of name2 password2]
    have msg: "\<exists>msg. fst ?second = Inr (failure msg)"
      and same: "auth_users (snd ?second) = auth_users ?w1"
      and dup: "name2 \<noteq> [] \<and> 6 \<le> length password2
        \<longrightarrow> fst ?second = Inr (failure ''User with this email already exists'')"
      by (simp_all add: test_emailRegex_AB)
    from same acc have "map email (accounts (snd ?second)) = [''a@b.com'']"
      by (simp add: accounts_def del: toString.simps)
    with msg same dup show "case ?second of
              (r2, w2) \<Rightarrow>
                (\<exists>msg. r2 = Inr (failure msg))
                \<and> (name2 \<noteq> [] \<and> 6 \<le> length password2
                    \<longrightarrow> r2 = Inr (failure ''User with this email already exists''))
                \<and> auth_users w2 = auth_users ?w1
                \<and> map email (accounts w2) = [''a@b.com'']"
      by (simp add: case_prod_beta)
  qed
qed

text \<open>The uniqueness theorem at the two sign-ups of the example, on a fresh provider.\<close>

theorem signups_keep_emails_unique_witness:
  "accounts fresh = []
   \<and> unique_emails (signups [(nominal 1, ''Ann'', ''a@b.com'', ''secret1''),
                              (nominal 2, ''Bob'', ''A@B.com'', ''secret2'')] fresh)
   \<and> reliable (nominal 1) \<and> reliable (nominal 2)
   \<and> fst (signup (nominal 1) ''Ann'' ''a@b.com'' ''secret1'' fresh)
       = Inr \<lparr>success = True, error = None\<rparr>
   \<and> fst (signup (nominal 2) ''Bob'' ''A@B.com'' ''secret2''
            (snd (signup (nominal 1) ''Ann'' ''a@b.com'' ''secret1'' fresh)))
       = Inr \<lparr>success = False, error = Some ''User with this email already exists''\<rparr>
   \<and> accounts (snd (signup (nominal 2) ''Bob'' ''A@B.com'' ''secret2''
            (snd (signup (nominal 1) ''Ann'' ''a@b.com'' ''secret1'' fresh))))
       = [\<lparr>name = ''Ann'', email = ''a@b.com'', uid = ''1'', password = ''secret1''\<rparr>]"
  using signups_keep_emails_unique [where w = fresh
      and calls = "[(nominal 1, ''Ann'', ''a@b.com'', ''secret1''),
                    (nominal 2, ''Bob'', ''A@B.com'', ''secret2'')]"
      and ?e1.0 = "nominal 1" and ?e2.0 = "nominal 2" and ?name1.0 = "''Ann''"
      and ?password1.0 = "''secret1''" and ?name2.0 = "''Bob''" and ?password2.0 = "''secret2''"]
  by (simp add: signup_eq input_defs eval_defs split: prod.splits)

section \<open>Login\<close>

text \<open>
  C3, as the claim states it, fails where a storage call rejects: with a stored account
  that matches the credentials, a rejected write of the session slot makes login return
  "An unexpected error occurred during login", and a rejected read of the account
  collection makes it return "Invalid email or password".
\<close>

theorem login_fault_counterexample:
  "list_ex (credentials_match ''john@example.com'' ''password123'') (accounts john_signed_out)
   \<and> fst (login (failing (SetItem AUTH_STORAGE_KEY) 0) ''john@example.com'' ''password123''
            john_signed_out)
       = Inr \<lparr>success = False, error = Some ''An unexpected error occurred during login''\<rparr>
   \<and> fst (login (failing (GetItem USERS_STORAGE_KEY) 0) ''john@example.com'' ''password123''
            john_signed_out)
       = Inr \<lparr>success = False, error = Some ''Invalid email or password''\<rparr>"
  by (simp add: login_eq input_defs eval_defs)

text \<open>
  C3, amended. For every login call: if the e-mail address or the password is empty, login
  returns the failed result "Email and password are required" and the session state is
  unchanged. Otherwise, with the account list the call reads (\<open>listing\<close>): if no account of
  it has a case-insensitively equal e-mail address and an exactly equal password, login
  returns the failed result "Invalid email or password" and the session state is
  unchanged; if \<open>a\<close> is the first such account, then, when the write of the session slot
  succeeds, login returns \<open>success: true\<close> and the session user, in memory and persisted,
  is \<open>a\<close> without its password; when that write rejects, login returns the failed result
  "An unexpected error occurred during login" and the persisted session slot is unchanged.
\<close>

theorem login_contract:
  "(case login e email_in password_in w of (r, w') \<Rightarrow>
     (email_in = [] \<or> password_in = []
        \<longrightarrow> r = Inr (failure ''Email and password are required'')
            \<and> user w' = user w \<and> auth_user w' = auth_user w)
     \<and> (email_in \<noteq> [] \<and> password_in \<noteq> []
         \<and> \<not> list_ex (credentials_match email_in password_in) (listing e w)
        \<longrightarrow> r = Inr (failure ''Invalid email or password'')
            \<and> user w' = user w \<and> auth_user w' = auth_user w)
     \<and> (\<forall>a. email_in \<noteq> [] \<and> password_in \<noteq> []
            \<and> find (credentials_match email_in password_in) (listing e w) = Some a
        \<longrightarrow> credentials_match email_in password_in a \<and> a \<in> set (listing e w)
            \<and> (if rejects e (SetItem AUTH_STORAGE_KEY)
                then r = Inr (failure ''An unexpected error occurred during login'')
                     \<and> auth_user w' = auth_user w
                else r = Inr succeeded \<and> user w' = Some (session_of a)
                     \<and> auth_user w' = Some (Json (session_of a)))))"
  by (auto simp: login_eq find_None_iff list_ex_iff dest: find_SomeD split: option.splits)

text \<open>
  The login contract at four concrete calls: an empty e-mail address, credentials that match
  no account, matching credentials written in another case, and the same with a rejected
  write of the session slot.
\<close>

theorem login_contract_witness:
  "fst (login (nominal 0) [] ''wrong'' john_signed_out)
     = Inr \<lparr>success = False, error = Some ''Email and password are required''\<rparr>
   \<and> \<not> list_ex (credentials_match ''x@y.com'' ''wrong'') (listing (nominal 0) john_signed_out)
   \<and> fst (login (nominal 0) ''x@y.com'' ''wrong'' john_signed_out)
     = Inr \<lparr>success = False, error = Some ''Invalid email or password''\<rparr>
   \<and> user (snd (login (nominal 0) ''x@y.com'' ''wrong'' john_signed_out)) = None
   \<and> find (credentials_match ''John@Example.com'' ''password123'')
        (listing (nominal 0) john_signed_out) = Some john
   \<and> fst (login (nominal 0) ''John@Example.com'' ''password123'' john_signed_out)
     = Inr \<lparr>success = True, error = None\<rparr>
   \<and> user (snd (login (nominal 0) ''John@Example.com'' ''password123'' john_signed_out))
     = Some \<lparr>name = ''John Doe'', email = ''john@example.com'', uid = ''1700000000000''\<rparr>
   \<and> fst (login (failing (SetItem AUTH_STORAGE_KEY) 0) ''John@Example.com'' ''password123''
            john_signed_out)
     = Inr \<lparr>success = False, error = Some ''An unexpected error occurred during login''\<rparr>"
  using login_contract [where e = "nominal 0" and email_in = "[]" and password_in = "''wrong''"
      and w = john_signed_out]
    login_contract [where e = "nominal 0" and email_in = "''x@y.com''"
      and password_in = "''wrong''" and w = john_signed_out]
    login_contract [where e = "nominal 0" and email_in = "''John@Example.com''"
      and password_in = "''password123''" and w = john_signed_out]
    login_contract [where e = "failing (SetItem AUTH_STORAGE_KEY) 0"
      and email_in = "''John@Example.com''" and password_in = "''password123''"
      and w = john_signed_out]
  by (simp add: case_prod_beta input_defs eval_defs toLowerCase_John toLowerCase_xy)

text \<open>
  C10. Login never modifies the stored account collection: after every login call,
  successful or not, the text under \<^verbatim>\<open>@auth_users\<close> and the accounts it holds are what they
  were before, and so is the loading flag; only the session slot and the user in memory
  can differ.
\<close>

theorem login_keeps_accounts:
  "auth_users (snd (login e email_in password_in w)) = auth_users w
   \<and> accounts (snd (login e email_in password_in w)) = accounts w
   \<and> isLoading (snd (login e email_in password_in w)) = isLoading w"
  by (simp add: login_eq accounts_def split: option.splits)

section \<open>Logout\<close>

text \<open>
  C8. Two logout calls in a row, neither with a rejected removal of the session slot, both
  return \<open>success: true\<close>, and after the second there is no user in memory and no
  persisted session slot.
\<close>

theorem logout_twice:
  "\<not> rejects e1 (RemoveItem AUTH_STORAGE_KEY) \<Longrightarrow> \<not> rejects e2 (RemoveItem AUTH_STORAGE_KEY)
   \<Longrightarrow> (case logout e1 w of (r1, w1) \<Rightarrow>
          case logout e2 w1 of (r2, w2) \<Rightarrow>
            r1 = Inr succeeded \<and> r2 = Inr succeeded \<and> user w2 = None \<and> auth_user w2 = None)"
  by (simp add: logout_eq)

text \<open>Two logouts of a signed-in provider.\<close>

theorem logout_twice_witness:
  "\<not> rejects (nominal 1) (RemoveItem AUTH_STORAGE_KEY)
   \<and> \<not> rejects (nominal 2) (RemoveItem AUTH_STORAGE_KEY)
   \<and> fst (logout (nominal 1) john_signed_in) = Inr \<lparr>success = True, error = None\<rparr>
   \<and> fst (logout (nominal 2) (snd (logout (nominal 1) john_signed_in)))
       = Inr \<lparr>success = True, error = None\<rparr>
   \<and> user (snd (logout (nominal 2) (snd (logout (nominal 1) john_signed_in)))) = None
   \<and> auth_user (snd (logout (nominal 2) (snd (logout (nominal 1) john_signed_in)))) = None"
  using logout_twice [where ?e1.0 = "nominal 1" and ?e2.0 = "nominal 2" and w = john_signed_in]
  by (simp add: nominal_def succeeded_def split: prod.splits)

text \<open>
  C9. Logout clears the user in memory before it removes the persisted session slot, so
  after every logout call the user in memory is \<open>None\<close>. When the removal rejects, logout
  returns the failed result "An unexpected error occurred during logout" and the persisted
  slot is unchanged, but a user that was signed in is gone from memory: a failed result
  does not mean an unchanged state.
\<close>

theorem logout_clears_user_first:
  "(case logout e w of (r, w') \<Rightarrow>
      user w' = None
      \<and> trace w' = trace w @ [SetUser None, Storage (RemoveItem AUTH_STORAGE_KEY)]
      \<and> (rejects e (RemoveItem AUTH_STORAGE_KEY)
           \<longrightarrow> r = Inr (failure ''An unexpected error occurred during logout'')
               \<and> auth_user w' = auth_user w
               \<and> (user w \<noteq> None \<longrightarrow> user w' \<noteq> user w)))"
  by (auto simp: logout_eq)

text \<open>A logout of a signed-in provider whose removal of the session slot rejects.\<close>

theorem logout_clears_user_first_witness:
  "rejects (failing (RemoveItem AUTH_STORAGE_KEY) 0) (RemoveItem AUTH_STORAGE_KEY)
   \<and> user john_signed_in \<noteq> None
   \<and> fst (logout (failing (RemoveItem AUTH_STORAGE_KEY) 0) john_signed_in)
       = Inr \<lparr>success = False, error = Some ''An unexpected error occurred during logout''\<rparr>
   \<and> user (snd (logout (failing (RemoveItem AUTH_STORAGE_KEY) 0) john_signed_in)) = None
   \<and> auth_user (snd (logout (failing (RemoveItem AUTH_STORAGE_KEY) 0) john_signed_in))
       = auth_user john_signed_in"
  using logout_clears_user_first [where e = "failing (RemoveItem AUTH_STORAGE_KEY) 0"
      and w = john_signed_in]
  by (simp add: case_prod_beta input_defs eval_defs)

section \<open>Round trip\<close>

text \<open>
  C4. From an empty store, when no storage call rejects, the sign-up of John Doe with
  "john@example.com" and "password123" succeeds and makes him the session user; after a
  logout, the login with the same e-mail address and password succeeds and the session
  user is the same as after the sign-up: same id, name and e-mail address.
\<close>

theorem signup_logout_login_round_trip:
  assumes "accounts w = []" and "reliable e1" and "reliable e2" and "reliable e3"
  shows "(case signup e1 ''John Doe'' ''john@example.com'' ''password123'' w of (r1, w1) \<Rightarrow>
          case logout e2 w1 of (r2, w2) \<Rightarrow>
          case login e3 ''john@example.com'' ''password123'' w2 of (r3, w3) \<Rightarrow>
            r1 = Inr succeeded
            \<and> user w1 = Some \<lparr>name = ''John Doe'', email = ''john@example.com'',
                               uid = toString (now e1)\<rparr>
            \<and> r2 = Inr succeeded \<and> user w2 = None
            \<and> r3 = Inr succeeded \<and> user w3 = user w1)"
  using assms
  by (simp add: signup_eq logout_eq login_eq Let_def eval_defs del: toString.simps)

text \<open>The round trip on a fresh provider, with the clock at three successive values.\<close>

theorem signup_logout_login_round_trip_witness:
  "accounts fresh = [] \<and> reliable (nominal 1700000000000) \<and> reliable (nominal 1700000000001)
   \<and> reliable (nominal 1700000000002)
   \<and> fst (signup (nominal 1700000000000) ''John Doe'' ''john@example.com'' ''password123'' fresh)
       = Inr \<lparr>success = True, error = None\<rparr>
   \<and> user (snd (signup (nominal 1700000000000) ''John Doe'' ''john@example.com''
                   ''password123'' fresh))
       = Some \<lparr>name = ''John Doe'', email = ''john@example.com'', uid = ''1700000000000''\<rparr>
   \<and> fst (login (nominal 1700000000002) ''john@example.com'' ''password123''
           (snd (logout (nominal 1700000000001)
             (snd (signup (nominal 1700000000000) ''John Doe'' ''john@example.com''
                     ''password123'' fresh)))))
       = Inr \<lparr>success = True, error = None\<rparr>
   \<and> user (snd (login (nominal 1700000000002) ''john@example.com'' ''password123''
           (snd (logout (nominal 1700000000001)
             (snd (signup (nominal 1700000000000) ''John Doe'' ''john@example.com''
                     ''password123'' fresh))))))
       = Some \<lparr>name = ''John Doe'', email = ''john@example.com'', uid = ''1700000000000''\<rparr>"
  using signup_logout_login_round_trip [where w = fresh and ?e1.0 = "nominal 1700000000000"
      and ?e2.0 = "nominal 1700000000001" and ?e3.0 = "nominal 1700000000002"]
  by (simp add: case_prod_beta input_defs eval_defs)

end
